theory Spec2Isabelle
  imports Complex_Main "HOL-Library.Sublist"
begin

section \<open>Structural values\<close>

text \<open>
  The values the deserializers receive and \<^verbatim>\<open>JSON.parse\<close> returns: null, booleans,
  numbers, strings, arrays and plain objects. An object is its own-property map. The
  code never computes with a number or looks inside a string beyond comparing it, so
  a number is a \<open>real\<close> and a string a list of characters standing for its code units.
\<close>

datatype json =
    JNull
  | JBool bool
  | JNum real
  | JStr string
  | JArr "json list"
  | JObj "string \<Rightarrow> json option"

datatype js_type = TString | TNumber | TBoolean | TObject

text \<open>The \<^verbatim>\<open>typeof\<close> operator: null and arrays are of type "object".\<close>

fun typeof :: "json \<Rightarrow> js_type" where
  "typeof JNull = TObject"
| "typeof (JBool b) = TBoolean"
| "typeof (JNum n) = TNumber"
| "typeof (JStr s) = TString"
| "typeof (JArr xs) = TObject"
| "typeof (JObj m) = TObject"

text \<open>\<^verbatim>\<open>Array.isArray\<close>.\<close>

fun isArray :: "json \<Rightarrow> bool" where
  "isArray (JArr xs) = True"
| "isArray v = False"

text \<open>The decimal name of an array index, as a property key.\<close>

definition digits :: string where
  "digits = ''0123456789''"

fun index_key :: "nat \<Rightarrow> string" where
  "index_key n =
     (if n < 10 then [digits ! n]
      else index_key (n div 10) @ [digits ! (n mod 10)])"

definition indexed :: "json list \<Rightarrow> (string \<rightharpoonup> json)" where
  "indexed xs = map_of (zip (map index_key [0..<length xs]) xs)"

text \<open>
  The own enumerable properties of a value, which \<^verbatim>\<open>Object.assign\<close> copies and a
  property read finds: the entries of an object, the elements of an array and the
  characters of a string under their indices, nothing for null, a boolean or a number.
\<close>

fun own_properties :: "json \<Rightarrow> (string \<rightharpoonup> json)" where
  "own_properties (JObj m) = m"
| "own_properties (JArr xs) = indexed xs"
| "own_properties (JStr s) = indexed (map (\<lambda>c. JStr [c]) s)"
| "own_properties v = Map.empty"

text \<open>
  A property read \<^verbatim>\<open>record.name\<close>; \<open>None\<close> is \<^verbatim>\<open>undefined\<close>. The names the
  code reads (\<^verbatim>\<open>sentiment\<close>, \<^verbatim>\<open>urgency\<close>) are not defined on
  \<^verbatim>\<open>Object.prototype\<close> or \<^verbatim>\<open>Array.prototype\<close>, so only own properties answer.
\<close>

definition get_property :: "json \<Rightarrow> string \<Rightarrow> json option" where
  "get_property v k = own_properties v k"

section \<open>Errors\<close>

text \<open>
  Modelled from the spec: the schema library's violation is not part of the sources;
  the spec gives it a kind (missing field, wrong primitive type, value outside domain),
  the offending field path and a human-readable message.
\<close>

datatype violation_kind = MissingField | WrongPrimitiveType | OutsideDomain

datatype issue =
  Issue (issue_kind: violation_kind) (issue_path: "string list") (issue_message: string)

text \<open>
  What the code throws: the \<^verbatim>\<open>SyntaxError\<close> of \<^verbatim>\<open>JSON.parse\<close>, a plain
  \<^verbatim>\<open>Error\<close> with its message, and the schema's aggregate \<^verbatim>\<open>ZodError\<close> with its issues.
\<close>

datatype error = SyntaxError string | Error string | ZodError "issue list"

section \<open>Parser\<close>

text \<open>
  \<^verbatim>\<open>JSON.parse\<close> belongs to the runtime, not to the repository: every function takes it
  as the parameter \<open>P\<close>, which answers a text with the message of the syntax error
  or with the decoded value.
\<close>

type_synonym parser = "string \<Rightarrow> string + json"

text \<open>
  \<^verbatim>\<open>typeof jsonObject === 'string' ? JSON.parse(jsonObject) : jsonObject\<close>, the first
  statement of every entry point: \<open>Inl msg\<close> is the syntax error thrown, with its
  message, \<open>Inr\<close> the decoded or passed-through value.
\<close>

fun parse_input :: "parser \<Rightarrow> json \<Rightarrow> string + json" where
  "parse_input P (JStr s) = P s"
| "parse_input P v = Inr v"

text \<open>
  The text of a caught syntax error inside a template literal
  (\<^verbatim>\<open>Error.prototype.toString\<close>): the name, then the message when there is one.
\<close>

definition SyntaxError_toString :: "string \<Rightarrow> string" where
  "SyntaxError_toString msg =
     (if msg = [] then ''SyntaxError'' else ''SyntaxError: '' @ msg)"

section \<open>Instantiator\<close>

text \<open>
  An instance is an object with a prototype and own fields. The prototype starts as
  the prototype of the target class; it can be replaced only through the inherited
  \<^verbatim>\<open>__proto__\<close> setter.
\<close>

datatype prototype = ClassPrototype | ValuePrototype json | NullPrototype

record typed_instance =
  proto :: prototype
  own_fields :: "string \<rightharpoonup> json"

text \<open>\<^verbatim>\<open>Object.create(classType.prototype)\<close>: the class prototype, no own field.\<close>

definition Object_create :: typed_instance where
  "Object_create = \<lparr>proto = ClassPrototype, own_fields = Map.empty\<rparr>"

text \<open>
  Whether assigning the key \<^verbatim>\<open>__proto__\<close> on the target reaches the accessor of
  \<^verbatim>\<open>Object.prototype\<close>: the target has no own property of that name, and its
  prototype chain ends in \<^verbatim>\<open>Object.prototype\<close> without a data property of that
  name before it. The target class declares data fields only, as
  \<^verbatim>\<open>sentimentObject\<close> does.
\<close>

fun reaches_proto_setter :: "typed_instance \<Rightarrow> bool" where
  "reaches_proto_setter t =
     (own_fields t ''__proto__'' = None \<and>
      (case proto t of
         ClassPrototype \<Rightarrow> True
       | NullPrototype \<Rightarrow> False
       | ValuePrototype v \<Rightarrow> own_properties v ''__proto__'' = None))"

text \<open>
  What the \<^verbatim>\<open>__proto__\<close> setter does with the assigned value: an object or an array
  becomes the prototype, null removes the prototype, any other value is ignored.
\<close>

fun set_prototype :: "prototype \<Rightarrow> json \<Rightarrow> prototype" where
  "set_prototype p (JObj m) = ValuePrototype (JObj m)"
| "set_prototype p (JArr xs) = ValuePrototype (JArr xs)"
| "set_prototype p JNull = NullPrototype"
| "set_prototype p v = p"

text \<open>
  \<^verbatim>\<open>Object.assign(instance, source)\<close> assigns every own enumerable property of the
  source to the target. An assignment creates or overwrites an own field, except the
  key \<^verbatim>\<open>__proto__\<close> when the accessor is reached: then the setter runs and no field
  is written.
\<close>

definition Object_assign :: "typed_instance \<Rightarrow> json \<Rightarrow> typed_instance" where
  "Object_assign t source =
     (let props = own_properties source in
      if reaches_proto_setter t then
        \<lparr>proto = (case props ''__proto__'' of
                    None \<Rightarrow> proto t
                  | Some v \<Rightarrow> set_prototype (proto t) v),
         own_fields = own_fields t ++ (props |` (- {''__proto__''}))\<rparr>
      else \<lparr>proto = proto t, own_fields = own_fields t ++ props\<rparr>)"

section \<open>Unchecked strategy\<close>

definition deserialize :: "parser \<Rightarrow> json \<Rightarrow> error + typed_instance" where
  "deserialize P jsonObject =
     (case parse_input P jsonObject of
        Inl msg \<Rightarrow> Inl (SyntaxError msg)
      | Inr obj \<Rightarrow> Inr (Object_assign Object_create obj))"

text \<open>
  \<^verbatim>\<open>arr.map(f)\<close> with a callback that may throw: the elements are processed in
  order and the first exception ends the call.
\<close>

fun map_throwing :: "('a \<Rightarrow> error + 'b) \<Rightarrow> 'a list \<Rightarrow> error + 'b list" where
  "map_throwing f [] = Inr []"
| "map_throwing f (x # xs) =
     (case f x of
        Inl e \<Rightarrow> Inl e
      | Inr y \<Rightarrow> (case map_throwing f xs of Inl e \<Rightarrow> Inl e | Inr ys \<Rightarrow> Inr (y # ys)))"

definition deserializeArray :: "parser \<Rightarrow> json \<Rightarrow> error + typed_instance list" where
  "deserializeArray P jsonArray =
     (case parse_input P jsonArray of
        Inl msg \<Rightarrow> Inl (SyntaxError msg)
      | Inr arr \<Rightarrow>
          (case arr of
             JArr items \<Rightarrow> map_throwing (deserialize P) items
           | _ \<Rightarrow> Inl (Error ''Input must be an array'')))"

section \<open>Hand-written validator\<close>

text \<open>The two sets of the validator, in insertion order.\<close>

definition validSentiments :: "string list" where
  "validSentiments = [''positive'', ''negative'', ''neutral'']"

definition validUrgencies :: "string list" where
  "validUrgencies = [''high'', ''medium'', ''low'']"

text \<open>\<^verbatim>\<open>Array.prototype.join\<close>.\<close>

fun join :: "string \<Rightarrow> string list \<Rightarrow> string" where
  "join sep [] = []"
| "join sep [x] = x"
| "join sep (x # y # ys) = x @ sep @ join sep (y # ys)"

definition SentimentObjectValidator_validate :: "json \<Rightarrow> error + json" where
  "SentimentObjectValidator_validate obj =
     (if typeof obj \<noteq> TObject \<or> obj = JNull then Inl (Error ''Input must be an object'')
      else
        (case get_property obj ''sentiment'' of
           Some (JStr s) \<Rightarrow>
             if s \<notin> set validSentiments
             then Inl (Error (''sentiment must be one of: '' @ join '', '' validSentiments))
             else
               (case get_property obj ''urgency'' of
                  Some (JStr u) \<Rightarrow>
                    if u \<notin> set validUrgencies
                    then Inl (Error (''urgency must be one of: '' @ join '', '' validUrgencies))
                    else Inr (JObj [''sentiment'' \<mapsto> JStr s, ''urgency'' \<mapsto> JStr u])
                | _ \<Rightarrow> Inl (Error ''urgency must be a string''))
         | _ \<Rightarrow> Inl (Error ''sentiment must be a string'')))"

definition deserializeWithValidation ::
  "parser \<Rightarrow> (json \<Rightarrow> error + json) \<Rightarrow> json \<Rightarrow> error + typed_instance" where
  "deserializeWithValidation P validator jsonObject =
     (case parse_input P jsonObject of
        Inl msg \<Rightarrow> Inl (SyntaxError msg)
      | Inr obj \<Rightarrow>
          (case validator obj of
             Inl e \<Rightarrow> Inl e
           | Inr validatedObj \<Rightarrow> Inr (Object_assign Object_create validatedObj)))"

section \<open>Schema validator\<close>

text \<open>
  Modelled from the spec: the schema library (\<^verbatim>\<open>z.object\<close>, \<^verbatim>\<open>z.enum\<close>,
  \<^verbatim>\<open>parse\<close>, \<^verbatim>\<open>safeParse\<close>) is imported by the repository and is not part of its
  sources. The spec's words: a schema declares the recognized fields and their
  closed-enumeration domains; validation finds all violations in one pass, each with its
  kind (missing field, wrong primitive type, value outside domain), its field path and
  a message; recognized-but-absent fields are violations; unrecognized fields are
  tolerated and dropped from the validated output. A schema answers a value that may be
  absent (\<open>None\<close>) with the violations or with the validated value.
\<close>

type_synonym schema = "json option \<Rightarrow> issue list + json"

text \<open>
  Modelled from the spec: a closed enumeration of strings with the message declared for
  it; the violation has the empty path, which the enclosing object extends.
\<close>

definition z_enum :: "string list \<Rightarrow> string \<Rightarrow> schema" where
  "z_enum allowed msg input =
     (case input of
        None \<Rightarrow> Inl [Issue MissingField [] msg]
      | Some (JStr s) \<Rightarrow>
          if s \<in> set allowed then Inr (JStr s) else Inl [Issue OutsideDomain [] msg]
      | Some v \<Rightarrow> Inl [Issue WrongPrimitiveType [] msg])"

text \<open>Modelled from the spec: a violation of a field, with the field's name put before its path.\<close>

definition under_key :: "string \<Rightarrow> issue \<Rightarrow> issue" where
  "under_key k i = Issue (issue_kind i) (k # issue_path i) (issue_message i)"

text \<open>
  Modelled from the spec: the violations of one declared field of a mapping, under the
  field's name.
\<close>

definition field_issues :: "(string \<rightharpoonup> json) \<Rightarrow> string \<times> schema \<Rightarrow> issue list" where
  "field_issues m decl =
     (case snd decl (m (fst decl)) of
        Inl is \<Rightarrow> map (under_key (fst decl)) is
      | Inr v \<Rightarrow> [])"

text \<open>
  Modelled from the spec: the validated output, which holds the declared fields only,
  each with its validated value.
\<close>

definition validated_fields :: "(string \<times> schema) list \<Rightarrow> (string \<rightharpoonup> json) \<Rightarrow> (string \<rightharpoonup> json)" where
  "validated_fields shape m k =
     (case map_of shape k of
        None \<Rightarrow> None
      | Some field \<Rightarrow> (case field (m k) of Inl is \<Rightarrow> None | Inr v \<Rightarrow> Some v))"

text \<open>
  Modelled from the spec: an object schema over its declared fields, in declaration
  order. The message for an input that is no mapping is not fixed by the spec.
\<close>

definition z_object :: "(string \<times> schema) list \<Rightarrow> schema" where
  "z_object shape input =
     (case input of
        None \<Rightarrow> Inl [Issue MissingField [] ''Invalid input: expected object'']
      | Some (JObj m) \<Rightarrow>
          (let issues = concat (map (field_issues m) shape)
           in if issues = [] then Inr (JObj (validated_fields shape m)) else Inl issues)
      | Some v \<Rightarrow> Inl [Issue WrongPrimitiveType [] ''Invalid input: expected object''])"

text \<open>
  The schema of the repository: two required fields, each a closed enumeration with the
  message declared for it.
\<close>

definition sentiment_message :: string where
  "sentiment_message =
     ''sentiment must be 'positive', 'negative', or 'neutral'' @ [CHR 0x27]"

definition urgency_message :: string where
  "urgency_message = ''urgency must be 'high', 'medium', or 'low'' @ [CHR 0x27]"

definition sentimentObjectSchema :: schema where
  "sentimentObjectSchema =
     z_object
       [(''sentiment'', z_enum [''positive'', ''negative'', ''neutral''] sentiment_message),
        (''urgency'', z_enum [''high'', ''medium'', ''low''] urgency_message)]"

text \<open>
  Modelled from the spec: the throwing mode raises the aggregate error carrying all
  violations found.
\<close>

definition zod_parse :: "schema \<Rightarrow> json \<Rightarrow> error + json" where
  "zod_parse sch v = (case sch (Some v) of Inl is \<Rightarrow> Inl (ZodError is) | Inr d \<Rightarrow> Inr d)"

text \<open>
  Modelled from the spec: the non-throwing mode returns a discriminated outcome,
  success with the value or failure with the aggregate error, and never raises.
\<close>

datatype 'a outcome = Success 'a | Failure error

definition zod_safeParse :: "schema \<Rightarrow> json \<Rightarrow> json outcome" where
  "zod_safeParse sch v =
     (case sch (Some v) of Inl is \<Rightarrow> Failure (ZodError is) | Inr d \<Rightarrow> Success d)"

section \<open>Schema strategy\<close>

definition deserializeWithZod :: "parser \<Rightarrow> schema \<Rightarrow> json \<Rightarrow> error + typed_instance" where
  "deserializeWithZod P sch jsonObject =
     (case parse_input P jsonObject of
        Inl msg \<Rightarrow> Inl (SyntaxError msg)
      | Inr obj \<Rightarrow>
          (case zod_parse sch obj of
             Inl e \<Rightarrow> Inl e
           | Inr validatedObj \<Rightarrow> Inr (Object_assign Object_create validatedObj)))"

definition deserializeArrayWithZod ::
  "parser \<Rightarrow> schema \<Rightarrow> json \<Rightarrow> error + typed_instance list" where
  "deserializeArrayWithZod P sch jsonArray =
     (case parse_input P jsonArray of
        Inl msg \<Rightarrow> Inl (SyntaxError msg)
      | Inr arr \<Rightarrow>
          (case arr of
             JArr items \<Rightarrow> map_throwing (deserializeWithZod P sch) items
           | _ \<Rightarrow> Inl (Error ''Input must be an array'')))"

text \<open>
  The whole body runs inside \<^verbatim>\<open>try\<close>, and the handler rethrows what it catches
  under the prefix. \<^verbatim>\<open>JSON.parse\<close> is the only call of the body that throws:
  \<^verbatim>\<open>safeParse\<close> returns its outcome, and creating the object and assigning to it
  do not fail.
\<close>

definition deserializeWithZodSafe ::
  "parser \<Rightarrow> schema \<Rightarrow> json \<Rightarrow> error + typed_instance outcome" where
  "deserializeWithZodSafe P sch jsonObject =
     (case parse_input P jsonObject of
        Inl msg \<Rightarrow> Inl (Error (''Failed to parse JSON: '' @ SyntaxError_toString msg))
      | Inr obj \<Rightarrow>
          (case zod_safeParse sch obj of
             Failure e \<Rightarrow> Inr (Failure e)
           | Success d \<Rightarrow> Inr (Success (Object_assign Object_create d))))"

section \<open>Valid mappings\<close>

text \<open>A field value inside a closed enumeration of strings.\<close>

fun in_domain :: "string list \<Rightarrow> json option \<Rightarrow> bool" where
  "in_domain allowed (Some (JStr s)) = (s \<in> set allowed)"
| "in_domain allowed v = False"

text \<open>Both recognized fields are present with values in their declared enumerations.\<close>

definition recognized_in_domain :: "(string \<rightharpoonup> json) \<Rightarrow> bool" where
  "recognized_in_domain m =
     (in_domain [''positive'', ''negative'', ''neutral''] (m ''sentiment'') \<and>
      in_domain [''high'', ''medium'', ''low''] (m ''urgency''))"

text \<open>A valid mapping: exactly the recognized fields, with in-domain values.\<close>

fun valid_mapping :: "json \<Rightarrow> bool" where
  "valid_mapping (JObj m) =
     (recognized_in_domain m \<and> (\<forall>k. k \<noteq> ''sentiment'' \<and> k \<noteq> ''urgency'' \<longrightarrow> m k = None))"
| "valid_mapping v = False"

text \<open>The instance of the target class that carries the own properties of a value.\<close>

definition instance_of :: "json \<Rightarrow> typed_instance" where
  "instance_of v = \<lparr>proto = ClassPrototype, own_fields = own_properties v\<rparr>"

text \<open>A mapping, as opposed to a sequence or a scalar.\<close>

fun is_mapping :: "json \<Rightarrow> bool" where
  "is_mapping (JObj m) = True"
| "is_mapping v = False"

section \<open>The specification's account of violations\<close>

text \<open>
  The order of checks as the specification words it for the hand-written validator: for
  each recognized field, the sentiment field before the urgency field, presence, then
  primitive type, then membership in the allowed values; the first violation is the one
  reported.
\<close>

datatype violation = Violation string violation_kind

fun field_violation_spec :: "string \<Rightarrow> string list \<Rightarrow> json option \<Rightarrow> violation option" where
  "field_violation_spec f allowed None = Some (Violation f MissingField)"
| "field_violation_spec f allowed (Some (JStr s)) =
     (if s \<in> set allowed then None else Some (Violation f OutsideDomain))"
| "field_violation_spec f allowed (Some v) = Some (Violation f WrongPrimitiveType)"

definition first_violation_spec :: "(string \<rightharpoonup> json) \<Rightarrow> violation option" where
  "first_violation_spec m =
     (case field_violation_spec ''sentiment'' [''positive'', ''negative'', ''neutral'']
             (m ''sentiment'') of
        Some v \<Rightarrow> Some v
      | None \<Rightarrow> field_violation_spec ''urgency'' [''high'', ''medium'', ''low''] (m ''urgency''))"

text \<open>The listing of a field's allowed values, as the validator's messages print it.\<close>

definition expected_domain :: "string \<Rightarrow> string" where
  "expected_domain f =
     (if f = ''sentiment'' then ''positive, negative, neutral'' else ''high, medium, low'')"

text \<open>
  The message of the hand-written validator for a violation: the allowed values for a
  string outside them, and one shared message for an absent field and for a value that
  is no string.
\<close>

fun violation_message :: "violation \<Rightarrow> string" where
  "violation_message (Violation f OutsideDomain) = f @ '' must be one of: '' @ expected_domain f"
| "violation_message (Violation f k) = f @ '' must be a string''"

text \<open>The kind of violation of a field value that is not in its enumeration.\<close>

fun violation_kind_of :: "json option \<Rightarrow> violation_kind" where
  "violation_kind_of None = MissingField"
| "violation_kind_of (Some (JStr s)) = OutsideDomain"
| "violation_kind_of (Some v) = WrongPrimitiveType"

text \<open>
  All violations of a mapping against the repository's schema, as the specification
  describes the aggregate error: one for each recognized field that is absent, no string
  or outside its enumeration, in declaration order, with the field as path and the
  message declared for the field.
\<close>

definition all_violations :: "(string \<rightharpoonup> json) \<Rightarrow> issue list" where
  "all_violations m =
     (if in_domain [''positive'', ''negative'', ''neutral''] (m ''sentiment'') then []
      else [Issue (violation_kind_of (m ''sentiment'')) [''sentiment''] sentiment_message]) @
     (if in_domain [''high'', ''medium'', ''low''] (m ''urgency'') then []
      else [Issue (violation_kind_of (m ''urgency'')) [''urgency''] urgency_message])"

section \<open>Test fixtures\<close>

text \<open>
  The answers of \<^verbatim>\<open>JSON.parse\<close> to three texts of the repository's tests, for
  running the functions on concrete inputs. The fixture answers every other text, such
  as the tests' \<^verbatim>\<open>{invalid json}\<close>, as a syntax error; it is used on these texts and
  on values that are no text only.
\<close>

definition test_parser :: parser where
  \<open>test_parser s =
     (if s = ''{"sentiment": "negative", "urgency": "low"}''
      then Inr (JObj [''sentiment'' \<mapsto> JStr ''negative'', ''urgency'' \<mapsto> JStr ''low''])
      else if s = ''{"sentiment": "positive", "urgency": "high"}''
      then Inr (JObj [''sentiment'' \<mapsto> JStr ''positive'', ''urgency'' \<mapsto> JStr ''high''])
      else if s = ''[{"sentiment": "positive", "urgency": "high"}]''
      then Inr (JArr [JObj [''sentiment'' \<mapsto> JStr ''positive'', ''urgency'' \<mapsto> JStr ''high'']])
      else Inl (''Unexpected token in JSON: '' @ s))\<close>

section \<open>Properties of the building blocks\<close>

declare index_key.simps [simp del]

lemma digit_char: "d < 10 \<Longrightarrow> digits ! d \<in> set digits"
  by (rule nth_mem) (simp add: digits_def)

lemma index_key_digits: "c \<in> set (index_key n) \<Longrightarrow> c \<in> set digits"
proof (induction n arbitrary: c rule: index_key.induct)
  case (1 n)
  show ?case
  proof (cases "n < 10")
    case True
    with 1(2) have "c = digits ! n" by (simp add: index_key.simps[of n])
    with True show ?thesis using digit_char by blast
  next
    case False
    with 1(2) have "c \<in> set (index_key (n div 10)) \<or> c = digits ! (n mod 10)"
      by (auto simp add: index_key.simps[of n])
    moreover have "n mod 10 < 10" by simp
    ultimately show ?thesis using 1(1)[OF False] digit_char by blast
  qed
qed

text \<open>An array has no own property under a key that is not a number.\<close>

lemma indexed_None: "\<exists>c \<in> set k. c \<notin> set digits \<Longrightarrow> indexed xs k = None"
proof -
  assume a: "\<exists>c \<in> set k. c \<notin> set digits"
  have "k \<notin> set (map index_key [0..<length xs])"
    using a index_key_digits by auto
  then have "k \<notin> fst ` set (zip (map index_key [0..<length xs]) xs)"
    by (metis (no_types, lifting) image_iff in_set_zipE prod.collapse)
  then show ?thesis unfolding indexed_def by (simp add: map_of_eq_None_iff)
qed

lemma in_domain_cases:
  "in_domain allowed v \<Longrightarrow> \<exists>s. v = Some (JStr s) \<and> s \<in> set allowed"
  by (cases "(allowed, v)" rule: in_domain.cases) simp_all

lemma recognized_present:
  assumes "recognized_in_domain m"
  shows "m ''sentiment'' = Some (the (m ''sentiment''))" "m ''urgency'' = Some (the (m ''urgency''))"
  using assms by (auto simp: recognized_in_domain_def dest!: in_domain_cases)

lemma valid_mapping_obj: "valid_mapping v \<Longrightarrow> \<exists>m. v = JObj m"
  by (cases v) simp_all

subsection \<open>Instantiation\<close>

lemma assign_fresh:
  "Object_assign Object_create v =
     \<lparr>proto = (case own_properties v ''__proto__'' of
                 None \<Rightarrow> ClassPrototype
               | Some w \<Rightarrow> set_prototype ClassPrototype w),
      own_fields = own_properties v |` (- {''__proto__''})\<rparr>"
  by (simp add: Object_assign_def Object_create_def Let_def split: option.splits)

lemma restrict_absent: "m k = None \<Longrightarrow> m |` (- {k}) = m"
  by (rule ext) (simp add: restrict_map_def)

lemma assign_fresh_plain:
  "m ''__proto__'' = None \<Longrightarrow>
   Object_assign Object_create (JObj m) = \<lparr>proto = ClassPrototype, own_fields = m\<rparr>"
  by (simp add: assign_fresh restrict_absent)

lemma assign_two_fields:
  "Object_assign Object_create (JObj [''sentiment'' \<mapsto> a, ''urgency'' \<mapsto> b]) =
     \<lparr>proto = ClassPrototype, own_fields = [''sentiment'' \<mapsto> a, ''urgency'' \<mapsto> b]\<rparr>"
  by (rule assign_fresh_plain) simp

text \<open>
  A key named \<^verbatim>\<open>__proto__\<close>, which a decoded text can carry as an own property, is
  not copied as a field: its value becomes the prototype of the result, which then is
  no instance of the target class, although the function is documented to return one
  with the properties of the JSON object.
\<close>

lemma deserialize_proto_key:
  "deserialize P
     (JObj [''sentiment'' \<mapsto> JStr ''positive'', ''urgency'' \<mapsto> JStr ''high'',
            ''__proto__'' \<mapsto> JObj [''admin'' \<mapsto> JBool True]]) =
   Inr \<lparr>proto = ValuePrototype (JObj [''admin'' \<mapsto> JBool True]),
        own_fields = [''sentiment'' \<mapsto> JStr ''positive'', ''urgency'' \<mapsto> JStr ''high'']\<rparr>"
proof -
  have "[''sentiment'' \<mapsto> JStr ''positive'', ''urgency'' \<mapsto> JStr ''high'',
         ''__proto__'' \<mapsto> JObj [''admin'' \<mapsto> JBool True]] |` (- {''__proto__''}) =
        [''sentiment'' \<mapsto> JStr ''positive'', ''urgency'' \<mapsto> JStr ''high'']"
    by (rule ext) (simp add: restrict_map_def)
  then show ?thesis by (simp add: deserialize_def assign_fresh)
qed

lemma two_fields_eq:
  assumes "m ''sentiment'' = Some a" "m ''urgency'' = Some b"
    "\<forall>k. k \<noteq> ''sentiment'' \<and> k \<noteq> ''urgency'' \<longrightarrow> m k = None"
  shows "[''sentiment'' \<mapsto> a, ''urgency'' \<mapsto> b] = m"
  using assms by (intro ext) auto

lemma valid_mapping_two_fields:
  assumes "valid_mapping (JObj m)"
  shows "[''sentiment'' \<mapsto> the (m ''sentiment''), ''urgency'' \<mapsto> the (m ''urgency'')] = m"
proof -
  from assms have r: "recognized_in_domain m" by simp
  from assms have "\<forall>k. k \<noteq> ''sentiment'' \<and> k \<noteq> ''urgency'' \<longrightarrow> m k = None" by simp
  with recognized_present[OF r] show ?thesis by (intro two_fields_eq) auto
qed

lemma restrict_two_fields:
  assumes "m ''sentiment'' = Some a" "m ''urgency'' = Some b"
  shows "[''sentiment'' \<mapsto> a, ''urgency'' \<mapsto> b] = m |` {''sentiment'', ''urgency''}"
  using assms by (intro ext) (auto simp: restrict_map_def)

lemma recognized_two_fields:
  assumes "recognized_in_domain m"
  shows "[''sentiment'' \<mapsto> the (m ''sentiment''), ''urgency'' \<mapsto> the (m ''urgency'')] =
           m |` {''sentiment'', ''urgency''}"
  using recognized_present[OF assms] by (intro restrict_two_fields) auto

subsection \<open>The hand-written validator on a mapping and on a sequence\<close>

lemma validate_mapping:
  "SentimentObjectValidator_validate (JObj m) =
     (case m ''sentiment'' of
        Some (JStr s) \<Rightarrow>
          if s \<notin> set validSentiments
          then Inl (Error ''sentiment must be one of: positive, negative, neutral'')
          else
            (case m ''urgency'' of
               Some (JStr u) \<Rightarrow>
                 if u \<notin> set validUrgencies
                 then Inl (Error ''urgency must be one of: high, medium, low'')
                 else Inr (JObj [''sentiment'' \<mapsto> JStr s, ''urgency'' \<mapsto> JStr u])
             | _ \<Rightarrow> Inl (Error ''urgency must be a string''))
      | _ \<Rightarrow> Inl (Error ''sentiment must be a string''))"
  by (simp add: SentimentObjectValidator_validate_def get_property_def validSentiments_def
      validUrgencies_def split: option.splits json.splits)

lemma validate_array:
  "SentimentObjectValidator_validate (JArr xs) = Inl (Error ''sentiment must be a string'')"
proof -
  have "indexed xs ''sentiment'' = None" by (rule indexed_None) (simp add: digits_def)
  then show ?thesis by (simp add: SentimentObjectValidator_validate_def get_property_def)
qed

lemma validate_recognized:
  assumes "recognized_in_domain m"
  shows "SentimentObjectValidator_validate (JObj m) =
           Inr (JObj [''sentiment'' \<mapsto> the (m ''sentiment''), ''urgency'' \<mapsto> the (m ''urgency'')])"
proof -
  from assms obtain s u where "m ''sentiment'' = Some (JStr s)" "s \<in> set validSentiments"
    "m ''urgency'' = Some (JStr u)" "u \<in> set validUrgencies"
    unfolding recognized_in_domain_def validSentiments_def validUrgencies_def
    by (blast dest: in_domain_cases)
  then show ?thesis by (simp add: validate_mapping)
qed

lemma validate_success:
  assumes "SentimentObjectValidator_validate v = Inr r"
  shows "\<exists>a b. r = JObj [''sentiment'' \<mapsto> JStr a, ''urgency'' \<mapsto> JStr b] \<and>
               a \<in> set validSentiments \<and> b \<in> set validUrgencies"
  using assms unfolding SentimentObjectValidator_validate_def
  by (auto split: if_splits option.splits json.splits)

lemma validate_first_violation:
  "first_violation_spec m = Some v \<Longrightarrow>
   SentimentObjectValidator_validate (JObj m) = Inl (Error (violation_message v))"
  by (cases "(''sentiment'', [''positive'', ''negative'', ''neutral''], m ''sentiment'')"
        rule: field_violation_spec.cases;
      cases "(''urgency'', [''high'', ''medium'', ''low''], m ''urgency'')"
        rule: field_violation_spec.cases)
     (auto simp: first_violation_spec_def validate_mapping validSentiments_def validUrgencies_def
        expected_domain_def split: if_splits)

lemma validate_no_violation:
  "first_violation_spec m = None \<Longrightarrow> \<exists>r. SentimentObjectValidator_validate (JObj m) = Inr r"
  by (cases "(''sentiment'', [''positive'', ''negative'', ''neutral''], m ''sentiment'')"
        rule: field_violation_spec.cases;
      cases "(''urgency'', [''high'', ''medium'', ''low''], m ''urgency'')"
        rule: field_violation_spec.cases)
     (auto simp: first_violation_spec_def validate_mapping validSentiments_def validUrgencies_def
        split: if_splits)

subsection \<open>The schema on a mapping\<close>

lemma schema_mapping:
  "sentimentObjectSchema (Some (JObj m)) =
     (let issues =
            field_issues m (''sentiment'', z_enum [''positive'', ''negative'', ''neutral''] sentiment_message) @
            field_issues m (''urgency'', z_enum [''high'', ''medium'', ''low''] urgency_message)
      in if issues = []
         then Inr (JObj (validated_fields
                [(''sentiment'', z_enum [''positive'', ''negative'', ''neutral''] sentiment_message),
                 (''urgency'', z_enum [''high'', ''medium'', ''low''] urgency_message)] m))
         else Inl issues)"
  by (simp add: sentimentObjectSchema_def z_object_def)

lemma z_enum_in_domain: "in_domain allowed v \<Longrightarrow> z_enum allowed msg v = Inr (the v)"
  by (auto dest!: in_domain_cases simp: z_enum_def)

lemma field_issues_enum:
  "field_issues m (f, z_enum allowed msg) =
     (if in_domain allowed (m f) then [] else [Issue (violation_kind_of (m f)) [f] msg])"
  by (cases "(allowed, m f)" rule: in_domain.cases)
     (auto simp: field_issues_def z_enum_def under_key_def split: option.splits json.splits)

lemma schema_in_domain:
  assumes "recognized_in_domain m"
  shows "sentimentObjectSchema (Some (JObj m)) =
           Inr (JObj [''sentiment'' \<mapsto> the (m ''sentiment''), ''urgency'' \<mapsto> the (m ''urgency'')])"
proof -
  from assms have s: "in_domain [''positive'', ''negative'', ''neutral''] (m ''sentiment'')"
    and u: "in_domain [''high'', ''medium'', ''low''] (m ''urgency'')"
    by (simp_all add: recognized_in_domain_def)
  have "validated_fields
          [(''sentiment'', z_enum [''positive'', ''negative'', ''neutral''] sentiment_message),
           (''urgency'', z_enum [''high'', ''medium'', ''low''] urgency_message)] m
        = [''sentiment'' \<mapsto> the (m ''sentiment''), ''urgency'' \<mapsto> the (m ''urgency'')]"
    by (rule ext) (simp add: validated_fields_def z_enum_in_domain[OF s] z_enum_in_domain[OF u])
  then show ?thesis
    by (simp add: schema_mapping field_issues_def z_enum_in_domain[OF s] z_enum_in_domain[OF u])
qed

lemma schema_violations:
  assumes "\<not> recognized_in_domain m"
  shows "sentimentObjectSchema (Some (JObj m)) = Inl (all_violations m)"
    and "all_violations m \<noteq> []"
proof -
  from assms show ne: "all_violations m \<noteq> []"
    by (auto simp: recognized_in_domain_def all_violations_def)
  then show "sentimentObjectSchema (Some (JObj m)) = Inl (all_violations m)"
    by (simp add: schema_mapping field_issues_enum all_violations_def Let_def)
qed

subsection \<open>The single-object forms on a mapping\<close>

lemma deserialize_valid:
  assumes "valid_mapping (JObj m)"
  shows "deserialize P (JObj m) = Inr \<lparr>proto = ClassPrototype, own_fields = m\<rparr>"
proof -
  from assms have "m ''__proto__'' = None" by simp
  then show ?thesis by (simp add: deserialize_def assign_fresh_plain)
qed

lemma deserialize_plain:
  "m ''__proto__'' = None \<Longrightarrow>
   deserialize P (JObj m) = Inr \<lparr>proto = ClassPrototype, own_fields = m\<rparr>"
  by (simp add: deserialize_def assign_fresh_plain)

lemma deserializeWithValidation_recognized:
  assumes "recognized_in_domain m"
  shows "deserializeWithValidation P SentimentObjectValidator_validate (JObj m) =
           Inr \<lparr>proto = ClassPrototype, own_fields = m |` {''sentiment'', ''urgency''}\<rparr>"
  using assign_two_fields[of "the (m ''sentiment'')" "the (m ''urgency'')"]
  unfolding recognized_two_fields[OF assms]
  by (simp add: deserializeWithValidation_def validate_recognized[OF assms]
      recognized_two_fields[OF assms])

lemma deserializeWithZod_recognized:
  assumes "recognized_in_domain m"
  shows "deserializeWithZod P sentimentObjectSchema (JObj m) =
           Inr \<lparr>proto = ClassPrototype, own_fields = m |` {''sentiment'', ''urgency''}\<rparr>"
  using assign_two_fields[of "the (m ''sentiment'')" "the (m ''urgency'')"]
  unfolding recognized_two_fields[OF assms]
  by (simp add: deserializeWithZod_def zod_parse_def schema_in_domain[OF assms]
      recognized_two_fields[OF assms])

lemma valid_mapping_restrict:
  assumes "valid_mapping (JObj m)"
  shows "m |` {''sentiment'', ''urgency''} = m"
proof -
  from assms have "recognized_in_domain m" by simp
  from recognized_two_fields[OF this] valid_mapping_two_fields[OF assms] show ?thesis by simp
qed

lemma deserializeWithValidation_valid:
  assumes "valid_mapping (JObj m)"
  shows "deserializeWithValidation P SentimentObjectValidator_validate (JObj m) =
           Inr \<lparr>proto = ClassPrototype, own_fields = m\<rparr>"
proof -
  from assms have "recognized_in_domain m" by simp
  from deserializeWithValidation_recognized[OF this] show ?thesis
    by (simp add: valid_mapping_restrict[OF assms])
qed

lemma deserializeWithZod_valid:
  assumes "valid_mapping (JObj m)"
  shows "deserializeWithZod P sentimentObjectSchema (JObj m) =
           Inr \<lparr>proto = ClassPrototype, own_fields = m\<rparr>"
proof -
  from assms have "recognized_in_domain m" by simp
  from deserializeWithZod_recognized[OF this] show ?thesis
    by (simp add: valid_mapping_restrict[OF assms])
qed

lemma deserialize_valid_instance:
  assumes "valid_mapping v"
  shows "deserialize P v = Inr (instance_of v)"
    and "deserializeWithZod P sentimentObjectSchema v = Inr (instance_of v)"
proof -
  from assms obtain m where v: "v = JObj m" using valid_mapping_obj by blast
  with assms have "valid_mapping (JObj m)" by simp
  then show "deserialize P v = Inr (instance_of v)"
    and "deserializeWithZod P sentimentObjectSchema v = Inr (instance_of v)"
    unfolding v by (simp_all add: deserialize_valid deserializeWithZod_valid instance_of_def)
qed

subsection \<open>Mapping a throwing function\<close>

lemma map_throwing_all:
  "\<forall>x \<in> set xs. f x = Inr (g x) \<Longrightarrow> map_throwing f xs = Inr (map g xs)"
  by (induction xs) simp_all

section \<open>The claims\<close>

text \<open>
  C1. For every input mapping that holds exactly the fields sentiment and urgency with
  values in their enumerations, the single-object form of each strategy (unchecked,
  hand-written validator, schema) returns an instance of the target class whose fields
  are the input's fields, so its sentiment and urgency are the input's values.
\<close>

theorem single_object_forms_return_input_fields:
  assumes "valid_mapping (JObj m)"
  shows "deserialize P (JObj m) = Inr \<lparr>proto = ClassPrototype, own_fields = m\<rparr> \<and>
         deserializeWithValidation P SentimentObjectValidator_validate (JObj m) =
           Inr \<lparr>proto = ClassPrototype, own_fields = m\<rparr> \<and>
         deserializeWithZod P sentimentObjectSchema (JObj m) =
           Inr \<lparr>proto = ClassPrototype, own_fields = m\<rparr>"
  using assms deserialize_valid deserializeWithValidation_valid deserializeWithZod_valid
  by blast

theorem single_object_forms_return_input_fields_witness:
  "deserialize test_parser (JObj [''sentiment'' \<mapsto> JStr ''positive'', ''urgency'' \<mapsto> JStr ''high'']) =
     Inr \<lparr>proto = ClassPrototype,
          own_fields = [''sentiment'' \<mapsto> JStr ''positive'', ''urgency'' \<mapsto> JStr ''high'']\<rparr> \<and>
   deserializeWithValidation test_parser SentimentObjectValidator_validate
       (JObj [''sentiment'' \<mapsto> JStr ''positive'', ''urgency'' \<mapsto> JStr ''high'']) =
     Inr \<lparr>proto = ClassPrototype,
          own_fields = [''sentiment'' \<mapsto> JStr ''positive'', ''urgency'' \<mapsto> JStr ''high'']\<rparr> \<and>
   deserializeWithZod test_parser sentimentObjectSchema
       (JObj [''sentiment'' \<mapsto> JStr ''positive'', ''urgency'' \<mapsto> JStr ''high'']) =
     Inr \<lparr>proto = ClassPrototype,
          own_fields = [''sentiment'' \<mapsto> JStr ''positive'', ''urgency'' \<mapsto> JStr ''high'']\<rparr>"
proof -
  have h: "valid_mapping (JObj [''sentiment'' \<mapsto> JStr ''positive'', ''urgency'' \<mapsto> JStr ''high''])"
    by (simp add: recognized_in_domain_def)
  from single_object_forms_return_input_fields[OF h, of test_parser] show ?thesis .
qed

text \<open>
  C2, as amended. For every input mapping that holds the recognized fields with
  in-domain values and any further fields, the further fields pass through on the
  unchecked path: when no field is named \<^verbatim>\<open>__proto__\<close>, the instance is of the target
  class and carries exactly the fields of the source mapping. On the
  hand-written-validator path and on the schema path the further fields are dropped:
  the instance is of the target class and carries exactly the fields sentiment and
  urgency of the source.
\<close>

theorem extra_fields_pass_only_unchecked:
  assumes "recognized_in_domain m"
  shows "(m ''__proto__'' = None \<longrightarrow>
            deserialize P (JObj m) = Inr \<lparr>proto = ClassPrototype, own_fields = m\<rparr>) \<and>
         deserializeWithValidation P SentimentObjectValidator_validate (JObj m) =
           Inr \<lparr>proto = ClassPrototype, own_fields = m |` {''sentiment'', ''urgency''}\<rparr> \<and>
         deserializeWithZod P sentimentObjectSchema (JObj m) =
           Inr \<lparr>proto = ClassPrototype, own_fields = m |` {''sentiment'', ''urgency''}\<rparr>"
  using deserialize_plain deserializeWithValidation_recognized[OF assms]
    deserializeWithZod_recognized[OF assms]
  by blast

theorem extra_fields_pass_only_unchecked_witness:
  "deserialize test_parser
     (JObj [''sentiment'' \<mapsto> JStr ''positive'', ''urgency'' \<mapsto> JStr ''high'',
            ''extra'' \<mapsto> JStr ''value'']) =
     Inr \<lparr>proto = ClassPrototype,
          own_fields = [''sentiment'' \<mapsto> JStr ''positive'', ''urgency'' \<mapsto> JStr ''high'',
                        ''extra'' \<mapsto> JStr ''value'']\<rparr> \<and>
   deserializeWithValidation test_parser SentimentObjectValidator_validate
     (JObj [''sentiment'' \<mapsto> JStr ''positive'', ''urgency'' \<mapsto> JStr ''high'',
            ''extra'' \<mapsto> JStr ''value'']) =
     Inr \<lparr>proto = ClassPrototype,
          own_fields = [''sentiment'' \<mapsto> JStr ''positive'', ''urgency'' \<mapsto> JStr ''high'']\<rparr> \<and>
   deserializeWithZod test_parser sentimentObjectSchema
     (JObj [''sentiment'' \<mapsto> JStr ''positive'', ''urgency'' \<mapsto> JStr ''high'',
            ''extra'' \<mapsto> JStr ''value'']) =
     Inr \<lparr>proto = ClassPrototype,
          own_fields = [''sentiment'' \<mapsto> JStr ''positive'', ''urgency'' \<mapsto> JStr ''high'']\<rparr>"
proof -
  let ?m = "[''sentiment'' \<mapsto> JStr ''positive'', ''urgency'' \<mapsto> JStr ''high'',
             ''extra'' \<mapsto> JStr ''value'']"
  have h: "recognized_in_domain ?m" by (simp add: recognized_in_domain_def)
  have p: "?m ''__proto__'' = None" by simp
  have r: "?m |` {''sentiment'', ''urgency''} =
           [''sentiment'' \<mapsto> JStr ''positive'', ''urgency'' \<mapsto> JStr ''high'']"
    by (rule ext) (simp add: restrict_map_def)
  from extra_fields_pass_only_unchecked[OF h, of test_parser] p show ?thesis
    unfolding r by blast
qed

text \<open>
  C2 as stated fails on the hand-written-validator path: the validator returns the two
  recognized fields only, so the field \<^verbatim>\<open>extra\<close> of the source is not carried by the
  instance.
\<close>

theorem validator_path_drops_extra_fields_counterexample:
  "recognized_in_domain
     [''sentiment'' \<mapsto> JStr ''positive'', ''urgency'' \<mapsto> JStr ''high'', ''extra'' \<mapsto> JStr ''value''] \<and>
   deserializeWithValidation test_parser SentimentObjectValidator_validate
     (JObj [''sentiment'' \<mapsto> JStr ''positive'', ''urgency'' \<mapsto> JStr ''high'',
            ''extra'' \<mapsto> JStr ''value'']) =
     Inr \<lparr>proto = ClassPrototype,
          own_fields = [''sentiment'' \<mapsto> JStr ''positive'', ''urgency'' \<mapsto> JStr ''high'']\<rparr> \<and>
   [''sentiment'' \<mapsto> JStr ''positive'', ''urgency'' \<mapsto> JStr ''high''] ''extra'' = None \<and>
   [''sentiment'' \<mapsto> JStr ''positive'', ''urgency'' \<mapsto> JStr ''high'', ''extra'' \<mapsto> JStr ''value'']
     ''extra'' = Some (JStr ''value'')"
  by (simp add: recognized_in_domain_def deserializeWithValidation_def validate_mapping
      validSentiments_def validUrgencies_def assign_two_fields)

text \<open>
  C3, as amended. For every input of the hand-written validator that is null or a
  scalar (a boolean, a number, a string), the validator raises "Input must be an
  object" before checking any field. A sequence passes that check, because its type is
  "object", and is rejected by the first field check with "sentiment must be a string".
\<close>

theorem validate_rejects_null_and_scalars:
  "(\<not> is_mapping v \<and> \<not> isArray v \<longrightarrow>
      SentimentObjectValidator_validate v = Inl (Error ''Input must be an object'')) \<and>
   (isArray v \<longrightarrow>
      SentimentObjectValidator_validate v = Inl (Error ''sentiment must be a string''))"
  by (cases v) (simp_all add: validate_array, simp_all add: SentimentObjectValidator_validate_def)

theorem validate_rejects_null_and_scalars_witness:
  "(\<not> is_mapping JNull \<and> \<not> isArray JNull) \<and>
   SentimentObjectValidator_validate JNull = Inl (Error ''Input must be an object'') \<and>
   isArray (JArr [JNum 1]) \<and>
   SentimentObjectValidator_validate (JArr [JNum 1]) = Inl (Error ''sentiment must be a string'')"
proof -
  have a: "\<not> is_mapping JNull \<and> \<not> isArray JNull" by simp
  have b: "isArray (JArr [JNum 1])" by simp
  from validate_rejects_null_and_scalars[of JNull]
    validate_rejects_null_and_scalars[of "JArr [JNum 1]"] a b
  show ?thesis by blast
qed

text \<open>
  C3 as stated fails for a sequence: the empty array is no mapping, and the validator
  raises "sentiment must be a string" for it, not "Input must be an object".
\<close>

theorem validate_sequence_counterexample:
  "\<not> is_mapping (JArr []) \<and>
   SentimentObjectValidator_validate (JArr []) = Inl (Error ''sentiment must be a string'') \<and>
   SentimentObjectValidator_validate (JArr []) \<noteq> Inl (Error ''Input must be an object'')"
  by (simp add: SentimentObjectValidator_validate_def get_property_def indexed_def)

text \<open>
  C4, as amended. For every mapping that violates the rules of the hand-written
  validator, the validator raises exactly the first violation in the fixed order
  (sentiment presence, sentiment primitive type, sentiment domain, then urgency
  presence, urgency primitive type, urgency domain). The message names the expected
  domain when the value is a string outside it ("<field> must be one of: <allowed
  values>"); for an absent field and for a value that is no string it is "<field> must
  be a string". A mapping without violation is accepted. In particular the input
  {"sentiment":"happy","urgency":"high"} raises "sentiment must be one of: positive,
  negative, neutral".
\<close>

theorem validate_raises_first_violation:
  "(first_violation_spec m = Some v \<longrightarrow>
      SentimentObjectValidator_validate (JObj m) = Inl (Error (violation_message v))) \<and>
   (first_violation_spec m = None \<longrightarrow> (\<exists>r. SentimentObjectValidator_validate (JObj m) = Inr r)) \<and>
   SentimentObjectValidator_validate
     (JObj [''sentiment'' \<mapsto> JStr ''happy'', ''urgency'' \<mapsto> JStr ''high'']) =
     Inl (Error ''sentiment must be one of: positive, negative, neutral'')"
proof (intro conjI impI)
  assume "first_violation_spec m = Some v"
  then show "SentimentObjectValidator_validate (JObj m) = Inl (Error (violation_message v))"
    by (rule validate_first_violation)
next
  assume "first_violation_spec m = None"
  then show "\<exists>r. SentimentObjectValidator_validate (JObj m) = Inr r"
    by (rule validate_no_violation)
next
  show "SentimentObjectValidator_validate
     (JObj [''sentiment'' \<mapsto> JStr ''happy'', ''urgency'' \<mapsto> JStr ''high'']) =
     Inl (Error ''sentiment must be one of: positive, negative, neutral'')"
    by (simp add: validate_mapping validSentiments_def)
qed

theorem validate_raises_first_violation_witness:
  "first_violation_spec [''sentiment'' \<mapsto> JNum 123, ''urgency'' \<mapsto> JStr ''urgent''] =
     Some (Violation ''sentiment'' WrongPrimitiveType) \<and>
   SentimentObjectValidator_validate
     (JObj [''sentiment'' \<mapsto> JNum 123, ''urgency'' \<mapsto> JStr ''urgent'']) =
     Inl (Error ''sentiment must be a string'') \<and>
   first_violation_spec [''sentiment'' \<mapsto> JStr ''neutral'', ''urgency'' \<mapsto> JStr ''low''] = None \<and>
   (\<exists>r. SentimentObjectValidator_validate
          (JObj [''sentiment'' \<mapsto> JStr ''neutral'', ''urgency'' \<mapsto> JStr ''low'']) = Inr r)"
proof -
  have a: "first_violation_spec [''sentiment'' \<mapsto> JNum 123, ''urgency'' \<mapsto> JStr ''urgent''] =
             Some (Violation ''sentiment'' WrongPrimitiveType)"
    by (simp add: first_violation_spec_def)
  have b: "first_violation_spec [''sentiment'' \<mapsto> JStr ''neutral'', ''urgency'' \<mapsto> JStr ''low''] = None"
    by (simp add: first_violation_spec_def)
  have c: "violation_message (Violation ''sentiment'' WrongPrimitiveType) = ''sentiment must be a string''"
    by simp
  from validate_raises_first_violation[of
      "[''sentiment'' \<mapsto> JNum 123, ''urgency'' \<mapsto> JStr ''urgent'']"
      "Violation ''sentiment'' WrongPrimitiveType"]
    validate_raises_first_violation[of
      "[''sentiment'' \<mapsto> JStr ''neutral'', ''urgency'' \<mapsto> JStr ''low'']"]
    a b c
  show ?thesis by metis
qed

text \<open>
  C4 as stated fails for a mapping without the sentiment field: the first violation is
  the missing sentiment, and the message raised for it does not name the expected
  domain of the field.
\<close>

theorem missing_field_message_counterexample:
  "first_violation_spec [''urgency'' \<mapsto> JStr ''high''] = Some (Violation ''sentiment'' MissingField) \<and>
   SentimentObjectValidator_validate (JObj [''urgency'' \<mapsto> JStr ''high'']) =
     Inl (Error ''sentiment must be a string'') \<and>
   \<not> sublist (expected_domain ''sentiment'') ''sentiment must be a string''"
  by (simp add: first_violation_spec_def validate_mapping expected_domain_def sublist_Cons_right)

text \<open>
  C5. For every mapping that does not conform to the schema, the throwing schema path
  raises one aggregate error that carries all violations found, not only the first: one
  for each recognized field that is absent, no string or outside its enumeration. When
  both sentiment and urgency are strings outside their enumerations, the aggregate
  error holds one violation for each field, with the field as path and the message that
  names the field's allowed values.
\<close>

theorem schema_path_raises_all_violations:
  assumes "\<not> recognized_in_domain m"
  shows "deserializeWithZod P sentimentObjectSchema (JObj m) = Inl (ZodError (all_violations m)) \<and>
         all_violations m \<noteq> [] \<and>
         (\<not> in_domain [''positive'', ''negative'', ''neutral''] (Some (JStr a)) \<and>
          \<not> in_domain [''high'', ''medium'', ''low''] (Some (JStr b)) \<and>
          m ''sentiment'' = Some (JStr a) \<and> m ''urgency'' = Some (JStr b) \<longrightarrow>
            all_violations m =
              [Issue OutsideDomain [''sentiment''] sentiment_message,
               Issue OutsideDomain [''urgency''] urgency_message])"
proof (intro conjI impI)
  show "deserializeWithZod P sentimentObjectSchema (JObj m) = Inl (ZodError (all_violations m))"
    by (simp add: deserializeWithZod_def zod_parse_def schema_violations(1)[OF assms])
  show "all_violations m \<noteq> []" by (rule schema_violations(2)[OF assms])
next
  assume "\<not> in_domain [''positive'', ''negative'', ''neutral''] (Some (JStr a)) \<and>
          \<not> in_domain [''high'', ''medium'', ''low''] (Some (JStr b)) \<and>
          m ''sentiment'' = Some (JStr a) \<and> m ''urgency'' = Some (JStr b)"
  then show "all_violations m =
              [Issue OutsideDomain [''sentiment''] sentiment_message,
               Issue OutsideDomain [''urgency''] urgency_message]"
    by (simp add: all_violations_def)
qed

theorem schema_path_raises_all_violations_witness:
  "\<not> recognized_in_domain [''sentiment'' \<mapsto> JStr ''invalid'', ''urgency'' \<mapsto> JStr ''also-invalid''] \<and>
   deserializeWithZod test_parser sentimentObjectSchema
     (JObj [''sentiment'' \<mapsto> JStr ''invalid'', ''urgency'' \<mapsto> JStr ''also-invalid'']) =
     Inl (ZodError [Issue OutsideDomain [''sentiment''] sentiment_message,
                    Issue OutsideDomain [''urgency''] urgency_message])"
proof -
  let ?m = "[''sentiment'' \<mapsto> JStr ''invalid'', ''urgency'' \<mapsto> JStr ''also-invalid'']"
  have h: "\<not> recognized_in_domain ?m" by (simp add: recognized_in_domain_def)
  have a: "\<not> in_domain [''positive'', ''negative'', ''neutral''] (Some (JStr ''invalid''))" by simp
  have b: "\<not> in_domain [''high'', ''medium'', ''low''] (Some (JStr ''also-invalid''))" by simp
  have c: "?m ''sentiment'' = Some (JStr ''invalid'')" by simp
  have d: "?m ''urgency'' = Some (JStr ''also-invalid'')" by simp
  from schema_path_raises_all_violations[OF h, of test_parser "''invalid''" "''also-invalid''"]
    h a b c d
  show ?thesis by metis
qed

text \<open>
  C6. The non-throwing schema form raises no error for a validation failure: whenever
  the schema finds violations in the decoded or passed-through value, the form returns
  the failure outcome that carries the aggregate error. For every text that is not
  well-formed JSON it raises an error whose message starts with "Failed to parse JSON",
  and so never returns that case as an outcome.
\<close>

theorem safe_form_returns_failures_raises_parse_errors:
  "(parse_input P x = Inr obj \<and> sch (Some obj) = Inl is \<longrightarrow>
      deserializeWithZodSafe P sch x = Inr (Failure (ZodError is))) \<and>
   (P s = Inl msg \<longrightarrow>
      (\<exists>t. deserializeWithZodSafe P sch (JStr s) = Inl (Error t) \<and>
           prefix ''Failed to parse JSON'' t))"
  by (simp add: deserializeWithZodSafe_def zod_safeParse_def)

theorem safe_form_returns_failures_raises_parse_errors_witness:
  "parse_input test_parser (JObj [''sentiment'' \<mapsto> JStr ''positive'']) =
     Inr (JObj [''sentiment'' \<mapsto> JStr ''positive'']) \<and>
   sentimentObjectSchema (Some (JObj [''sentiment'' \<mapsto> JStr ''positive''])) =
     Inl [Issue MissingField [''urgency''] urgency_message] \<and>
   deserializeWithZodSafe test_parser sentimentObjectSchema (JObj [''sentiment'' \<mapsto> JStr ''positive'']) =
     Inr (Failure (ZodError [Issue MissingField [''urgency''] urgency_message])) \<and>
   test_parser ''{invalid json}'' = Inl ''Unexpected token in JSON: {invalid json}'' \<and>
   (\<exists>t. deserializeWithZodSafe test_parser sentimentObjectSchema (JStr ''{invalid json}'') =
          Inl (Error t) \<and> prefix ''Failed to parse JSON'' t)"
proof -
  let ?x = "JObj [''sentiment'' \<mapsto> JStr ''positive'']"
  have a: "parse_input test_parser ?x = Inr ?x" by simp
  have b: "sentimentObjectSchema (Some ?x) = Inl [Issue MissingField [''urgency''] urgency_message]"
    by (simp add: schema_mapping field_issues_enum)
  have c: "test_parser ''{invalid json}'' = Inl ''Unexpected token in JSON: {invalid json}''"
    by (simp add: test_parser_def)
  from safe_form_returns_failures_raises_parse_errors[of test_parser ?x ?x sentimentObjectSchema
      "[Issue MissingField [''urgency''] urgency_message]" "''{invalid json}''"
      "''Unexpected token in JSON: {invalid json}''"] a b c
  show ?thesis by blast
qed

text \<open>
  C7. For every input of an array form (unchecked, schema) whose decoded or
  passed-through value is not a sequence, the call raises an error with the same
  message "Input must be an array", whatever the strategy and the schema, and so before
  any element is processed.
\<close>

theorem array_forms_require_sequence:
  assumes "parse_input P x = Inr arr" "\<not> isArray arr"
  shows "deserializeArray P x = Inl (Error ''Input must be an array'') \<and>
         deserializeArrayWithZod P sch x = Inl (Error ''Input must be an array'')"
  using assms by (cases arr) (simp_all add: deserializeArray_def deserializeArrayWithZod_def)

theorem array_forms_require_sequence_witness:
  \<open>parse_input test_parser (JStr ''{"sentiment": "positive", "urgency": "high"}'') =
     Inr (JObj [''sentiment'' \<mapsto> JStr ''positive'', ''urgency'' \<mapsto> JStr ''high'']) \<and>
   \<not> isArray (JObj [''sentiment'' \<mapsto> JStr ''positive'', ''urgency'' \<mapsto> JStr ''high'']) \<and>
   deserializeArray test_parser (JStr ''{"sentiment": "positive", "urgency": "high"}'') =
     Inl (Error ''Input must be an array'') \<and>
   deserializeArrayWithZod test_parser sentimentObjectSchema
     (JStr ''{"sentiment": "positive", "urgency": "high"}'') =
     Inl (Error ''Input must be an array'')\<close>
proof -
  have a: \<open>parse_input test_parser (JStr ''{"sentiment": "positive", "urgency": "high"}'') =
     Inr (JObj [''sentiment'' \<mapsto> JStr ''positive'', ''urgency'' \<mapsto> JStr ''high''])\<close>
    by (simp add: test_parser_def)
  have b: "\<not> isArray (JObj [''sentiment'' \<mapsto> JStr ''positive'', ''urgency'' \<mapsto> JStr ''high''])"
    by simp
  from array_forms_require_sequence[OF a b, of sentimentObjectSchema] a b show ?thesis by blast
qed

text \<open>
  C8. For every sequence of N valid mappings, N \<ge> 0, each array form (unchecked,
  schema) returns the sequence of the N instances of its elements, in the order of the
  elements; for the empty sequence it returns the empty sequence.
\<close>

theorem array_forms_keep_length_and_order:
  assumes "\<forall>v \<in> set items. valid_mapping v"
  shows "deserializeArray P (JArr items) = Inr (map instance_of items) \<and>
         deserializeArrayWithZod P sentimentObjectSchema (JArr items) = Inr (map instance_of items) \<and>
         length (map instance_of items) = length items \<and>
         deserializeArray P (JArr []) = Inr [] \<and>
         deserializeArrayWithZod P sentimentObjectSchema (JArr []) = Inr []"
proof -
  from assms have "\<forall>v \<in> set items. deserialize P v = Inr (instance_of v)"
    and "\<forall>v \<in> set items. deserializeWithZod P sentimentObjectSchema v = Inr (instance_of v)"
    by (simp_all add: deserialize_valid_instance)
  then show ?thesis
    by (simp add: deserializeArray_def deserializeArrayWithZod_def map_throwing_all)
qed

theorem array_forms_keep_length_and_order_witness:
  "deserializeArray test_parser
     (JArr [JObj [''sentiment'' \<mapsto> JStr ''positive'', ''urgency'' \<mapsto> JStr ''high''],
            JObj [''sentiment'' \<mapsto> JStr ''neutral'', ''urgency'' \<mapsto> JStr ''medium'']]) =
     Inr [\<lparr>proto = ClassPrototype,
           own_fields = [''sentiment'' \<mapsto> JStr ''positive'', ''urgency'' \<mapsto> JStr ''high'']\<rparr>,
          \<lparr>proto = ClassPrototype,
           own_fields = [''sentiment'' \<mapsto> JStr ''neutral'', ''urgency'' \<mapsto> JStr ''medium'']\<rparr>] \<and>
   deserializeArrayWithZod test_parser sentimentObjectSchema
     (JArr [JObj [''sentiment'' \<mapsto> JStr ''positive'', ''urgency'' \<mapsto> JStr ''high''],
            JObj [''sentiment'' \<mapsto> JStr ''neutral'', ''urgency'' \<mapsto> JStr ''medium'']]) =
     Inr [\<lparr>proto = ClassPrototype,
           own_fields = [''sentiment'' \<mapsto> JStr ''positive'', ''urgency'' \<mapsto> JStr ''high'']\<rparr>,
          \<lparr>proto = ClassPrototype,
           own_fields = [''sentiment'' \<mapsto> JStr ''neutral'', ''urgency'' \<mapsto> JStr ''medium'']\<rparr>]"
proof -
  let ?a = "JObj [''sentiment'' \<mapsto> JStr ''positive'', ''urgency'' \<mapsto> JStr ''high'']"
  let ?b = "JObj [''sentiment'' \<mapsto> JStr ''neutral'', ''urgency'' \<mapsto> JStr ''medium'']"
  have h: "\<forall>v \<in> set [?a, ?b]. valid_mapping v" by (simp add: recognized_in_domain_def)
  have m: "map instance_of [?a, ?b] =
     [\<lparr>proto = ClassPrototype,
       own_fields = [''sentiment'' \<mapsto> JStr ''positive'', ''urgency'' \<mapsto> JStr ''high'']\<rparr>,
      \<lparr>proto = ClassPrototype,
       own_fields = [''sentiment'' \<mapsto> JStr ''neutral'', ''urgency'' \<mapsto> JStr ''medium'']\<rparr>]"
    by (simp add: instance_of_def)
  from array_forms_keep_length_and_order[OF h, of test_parser] show ?thesis
    unfolding m by blast
qed

text \<open>
  C9. For every valid mapping and every text that decodes to it, each single-object
  strategy (unchecked, hand-written validator, schema) gives the same result on the
  text as on the already-parsed mapping.
\<close>

theorem text_and_parsed_mapping_agree:
  assumes "valid_mapping v" "P s = Inr v"
  shows "deserialize P (JStr s) = deserialize P v \<and>
         deserializeWithValidation P SentimentObjectValidator_validate (JStr s) =
           deserializeWithValidation P SentimentObjectValidator_validate v \<and>
         deserializeWithZod P sentimentObjectSchema (JStr s) =
           deserializeWithZod P sentimentObjectSchema v"
proof -
  from assms(1) obtain m where v: "v = JObj m" using valid_mapping_obj by blast
  have "parse_input P (JStr s) = parse_input P v" using assms(2) by (simp add: v)
  then show ?thesis
    by (simp add: deserialize_def deserializeWithValidation_def deserializeWithZod_def)
qed

theorem text_and_parsed_mapping_agree_witness:
  \<open>test_parser ''{"sentiment": "negative", "urgency": "low"}'' =
     Inr (JObj [''sentiment'' \<mapsto> JStr ''negative'', ''urgency'' \<mapsto> JStr ''low'']) \<and>
   deserialize test_parser (JStr ''{"sentiment": "negative", "urgency": "low"}'') =
     deserialize test_parser (JObj [''sentiment'' \<mapsto> JStr ''negative'', ''urgency'' \<mapsto> JStr ''low'']) \<and>
   deserializeWithValidation test_parser SentimentObjectValidator_validate
       (JStr ''{"sentiment": "negative", "urgency": "low"}'') =
     deserializeWithValidation test_parser SentimentObjectValidator_validate
       (JObj [''sentiment'' \<mapsto> JStr ''negative'', ''urgency'' \<mapsto> JStr ''low'']) \<and>
   deserializeWithZod test_parser sentimentObjectSchema
       (JStr ''{"sentiment": "negative", "urgency": "low"}'') =
     deserializeWithZod test_parser sentimentObjectSchema
       (JObj [''sentiment'' \<mapsto> JStr ''negative'', ''urgency'' \<mapsto> JStr ''low''])\<close>
proof -
  have a: "valid_mapping (JObj [''sentiment'' \<mapsto> JStr ''negative'', ''urgency'' \<mapsto> JStr ''low''])"
    by (simp add: recognized_in_domain_def)
  have b: \<open>test_parser ''{"sentiment": "negative", "urgency": "low"}'' =
     Inr (JObj [''sentiment'' \<mapsto> JStr ''negative'', ''urgency'' \<mapsto> JStr ''low''])\<close>
    by (simp add: test_parser_def)
  from text_and_parsed_mapping_agree[of
      "JObj [''sentiment'' \<mapsto> JStr ''negative'', ''urgency'' \<mapsto> JStr ''low'']" test_parser
      \<open>''{"sentiment": "negative", "urgency": "low"}''\<close>] a b
  show ?thesis by blast
qed

text \<open>
  C10. Every successful result of the hand-written validator has a sentiment field in
  {positive, negative, neutral} and an urgency field in {high, medium, low}; hence
  every instance that the validator-based single-object form returns with this
  validator has in-domain values in both fields.
\<close>

theorem validator_results_are_in_domain:
  "(SentimentObjectValidator_validate v = Inr r \<longrightarrow> recognized_in_domain (own_properties r)) \<and>
   (deserializeWithValidation P SentimentObjectValidator_validate x = Inr i \<longrightarrow>
      recognized_in_domain (own_fields i))"
proof (intro conjI impI)
  assume "SentimentObjectValidator_validate v = Inr r"
  from validate_success[OF this] show "recognized_in_domain (own_properties r)"
    by (auto simp: recognized_in_domain_def validSentiments_def validUrgencies_def)
next
  assume d: "deserializeWithValidation P SentimentObjectValidator_validate x = Inr i"
  then obtain obj r where r: "SentimentObjectValidator_validate obj = Inr r"
    and i: "i = Object_assign Object_create r"
    by (auto simp: deserializeWithValidation_def split: sum.splits)
  from validate_success[OF r] obtain a b where
    "r = JObj [''sentiment'' \<mapsto> JStr a, ''urgency'' \<mapsto> JStr b]"
    "a \<in> set validSentiments" "b \<in> set validUrgencies" by blast
  then show "recognized_in_domain (own_fields i)"
    by (auto simp: i assign_two_fields recognized_in_domain_def validSentiments_def
        validUrgencies_def)
qed

theorem validator_results_are_in_domain_witness:
  "SentimentObjectValidator_validate
     (JObj [''sentiment'' \<mapsto> JStr ''positive'', ''urgency'' \<mapsto> JStr ''high'', ''extra'' \<mapsto> JStr ''value'']) =
     Inr (JObj [''sentiment'' \<mapsto> JStr ''positive'', ''urgency'' \<mapsto> JStr ''high'']) \<and>
   recognized_in_domain
     (own_properties (JObj [''sentiment'' \<mapsto> JStr ''positive'', ''urgency'' \<mapsto> JStr ''high''])) \<and>
   deserializeWithValidation test_parser SentimentObjectValidator_validate
     (JObj [''sentiment'' \<mapsto> JStr ''positive'', ''urgency'' \<mapsto> JStr ''high'', ''extra'' \<mapsto> JStr ''value'']) =
     Inr \<lparr>proto = ClassPrototype,
          own_fields = [''sentiment'' \<mapsto> JStr ''positive'', ''urgency'' \<mapsto> JStr ''high'']\<rparr> \<and>
   recognized_in_domain
     (own_fields \<lparr>proto = ClassPrototype,
          own_fields = [''sentiment'' \<mapsto> JStr ''positive'', ''urgency'' \<mapsto> JStr ''high'']\<rparr>)"
proof -
  let ?x = "JObj [''sentiment'' \<mapsto> JStr ''positive'', ''urgency'' \<mapsto> JStr ''high'',
                  ''extra'' \<mapsto> JStr ''value'']"
  let ?r = "JObj [''sentiment'' \<mapsto> JStr ''positive'', ''urgency'' \<mapsto> JStr ''high'']"
  let ?i = "\<lparr>proto = ClassPrototype,
          own_fields = [''sentiment'' \<mapsto> JStr ''positive'', ''urgency'' \<mapsto> JStr ''high'']\<rparr>"
  have a: "SentimentObjectValidator_validate ?x = Inr ?r"
    by (simp add: validate_mapping validSentiments_def validUrgencies_def)
  have b: "deserializeWithValidation test_parser SentimentObjectValidator_validate ?x = Inr ?i"
    by (simp add: deserializeWithValidation_def a assign_two_fields)
  from validator_results_are_in_domain[of ?x ?r test_parser ?x ?i] a b show ?thesis by blast
qed

end
